theory Spec2Isabelle
  imports Complex_Main "HOL-Library.Log_Nat" "HOL-Library.Multiset"
begin

section \<open>The genre-classifier training script\<close>

text \<open>
  A shallow embedding of \<^verbatim>\<open>tools/train_genre_classifier.py\<close>: the per-track loop of
  \<^verbatim>\<open>main\<close> (label check, resampling, embedding extraction, error handling), the
  construction of the arrays, the shuffle, the train/test split and the entry point.

  Python's own arithmetic is modelled exactly: a \<^verbatim>\<open>float\<close> is the rational number it
  denotes, and every float operation rounds the exact result to the nearest binary64 value,
  ties to even. The samples of a waveform are finite numbers, infinities or NaN. What the
  script calls in NumPy, TensorFlow and the pretrained model is not code of the script;
  those calls are parameters of the model (record \<open>lib\<close>), with the shapes and the
  exceptions of the library written out. The dataset is the list of its
  tracks, as \<^verbatim>\<open>load_gtzan_huggingface\<close> returns it. The banners and
  \<^verbatim>\<open>check_tensorflow_version\<close>, which print fixed text and decide nothing, are left out.
\<close>

subsection \<open>Binary floating point\<close>

text \<open>Round to the nearest integer, ties to the even one.\<close>

definition rne :: "rat \<Rightarrow> int" where
  "rne x =
     (let f = \<lfloor>x\<rfloor>; d = x - of_int f
      in if d < 1 / 2 then f else if 1 / 2 < d then f + 1 else if even f then f else f + 1)"

text \<open>\<open>ilog2 x\<close> is \<open>\<lfloor>log\<^sub>2 x\<rfloor>\<close> for a positive rational \<open>x\<close>, computed from the bit lengths of
  its numerator and denominator.\<close>

definition ilog2 :: "rat \<Rightarrow> int" where
  "ilog2 x =
     (let k = bitlen (fst (quotient_of x)) - bitlen (snd (quotient_of x))
      in if 2 powi k \<le> x then k else k - 1)"

text \<open>
  \<open>round_to p emin x\<close> is the value nearest to \<open>x\<close> among the binary floating-point numbers
  with \<open>p\<close> significant bits and least exponent \<open>emin\<close> (the numbers \<open>m * 2\<^sup>e\<close> with
  \<open>\<bar>m\<bar> < 2\<^sup>p\<close> and \<open>emin \<le> e\<close>), ties to even: below \<open>2 powi (emin + p - 1)\<close> the spacing stays
  \<open>2 powi emin\<close> (subnormal numbers). \<open>round_to\<close> has no largest exponent: the scalar
  operations of the script (\<open>float64\<close>) do not exceed it on an array that fits in memory,
  and the conversion of a sample to float32 (\<open>float32\<close> below) adds the overflow to an
  infinity.
\<close>

definition round_to :: "nat \<Rightarrow> int \<Rightarrow> rat \<Rightarrow> rat" where
  "round_to p emin x =
     (if x = 0 then 0
      else let e = max (ilog2 \<bar>x\<bar> - (int p - 1)) emin
           in of_int (rne (x / 2 powi e)) * 2 powi e)"

definition float64 :: "rat \<Rightarrow> rat" where
  "float64 x = round_to 53 (- 1074) x"

text \<open>
  A sample of a waveform, in float64 or in float32: a finite number, an infinity or NaN.
\<close>

datatype sample = Finite rat | PosInf | NegInf | NaN

text \<open>
  The float32 value nearest to a number: a result that reaches \<open>2\<^sup>1\<^sup>2\<^sup>8\<close> in magnitude is beyond
  the largest float32 number and becomes an infinity.
\<close>

definition float32 :: "rat \<Rightarrow> sample" where
  "float32 x =
     (let y = round_to 24 (- 149) x
      in if 2 ^ 128 \<le> \<bar>y\<bar> then (if 0 < y then PosInf else NegInf) else Finite y)"

text \<open>The conversion of a sample to float32: infinities and NaN stay.\<close>

fun cast_float32 :: "sample \<Rightarrow> sample" where
  "cast_float32 (Finite x) = float32 x"
| "cast_float32 PosInf = PosInf"
| "cast_float32 NegInf = NegInf"
| "cast_float32 NaN = NaN"

text \<open>\<^verbatim>\<open>x < y\<close> on two samples: false as soon as one of them is NaN.\<close>

fun sample_less :: "sample \<Rightarrow> sample \<Rightarrow> bool" where
  "sample_less (Finite x) (Finite y) \<longleftrightarrow> x < y"
| "sample_less (Finite x) PosInf \<longleftrightarrow> True"
| "sample_less NegInf (Finite y) \<longleftrightarrow> True"
| "sample_less NegInf PosInf \<longleftrightarrow> True"
| "sample_less x y \<longleftrightarrow> False"

text \<open>\<^verbatim>\<open>np.abs\<close> on one sample.\<close>

fun sample_abs :: "sample \<Rightarrow> sample" where
  "sample_abs (Finite x) = Finite \<bar>x\<bar>"
| "sample_abs PosInf = PosInf"
| "sample_abs NegInf = PosInf"
| "sample_abs NaN = NaN"

text \<open>\<^verbatim>\<open>np.maximum\<close> on two samples, which \<^verbatim>\<open>max\<close> reduces an array with: NaN as soon as
  one of them is NaN.\<close>

fun sample_max :: "sample \<Rightarrow> sample \<Rightarrow> sample" where
  "sample_max NaN y = NaN"
| "sample_max x NaN = NaN"
| "sample_max x y = (if sample_less x y then y else x)"

text \<open>The float32 division of a float32 sample by a positive number, here 32768.\<close>

fun sample_div :: "sample \<Rightarrow> rat \<Rightarrow> sample" where
  "sample_div (Finite x) c = float32 (x / c)"
| "sample_div PosInf c = PosInf"
| "sample_div NegInf c = NegInf"
| "sample_div NaN c = NaN"

subsection \<open>Python values and exceptions\<close>

datatype exn = ZeroDivisionError | ValueError | IndexError | OtherError string

text \<open>\<^verbatim>\<open>float(n)\<close> for an \<^verbatim>\<open>int\<close>, as done implicitly by \<^verbatim>\<open>n * x\<close> with a float \<open>x\<close>.\<close>

definition float_of_int :: "int \<Rightarrow> rat" where
  "float_of_int n = float64 (of_int n)"

text \<open>\<^verbatim>\<open>a / b\<close> on two \<^verbatim>\<open>int\<close>s: the correctly rounded quotient, or ZeroDivisionError.\<close>

definition py_truediv :: "int \<Rightarrow> int \<Rightarrow> exn + rat" where
  "py_truediv a b =
     (if b = 0 then Inl ZeroDivisionError else Inr (float64 (of_int a / of_int b)))"

text \<open>\<^verbatim>\<open>x * y\<close> on two floats.\<close>

definition float_mul :: "rat \<Rightarrow> rat \<Rightarrow> rat" where
  "float_mul x y = float64 (x * y)"

text \<open>\<^verbatim>\<open>int(x)\<close> on a float truncates toward zero.\<close>

definition py_int :: "rat \<Rightarrow> int" where
  "py_int x = (if 0 \<le> x then \<lfloor>x\<rfloor> else - \<lfloor>- x\<rfloor>)"

text \<open>The float literal \<^verbatim>\<open>0.8\<close>.\<close>

definition lit_0_8 :: rat where
  "lit_0_8 = float64 (4 / 5)"

text \<open>
  The value of \<^verbatim>\<open>example['genre']\<close>. \<^verbatim>\<open>isinstance(v, int)\<close> holds for an \<^verbatim>\<open>int\<close> and for a
  \<^verbatim>\<open>bool\<close> (a subclass of \<^verbatim>\<open>int\<close>, comparing as 0 or 1); \<open>OtherVal\<close> is any other object
  (a string, a float, \<^verbatim>\<open>None\<close>, a NumPy scalar), carried by its printed form.
\<close>

datatype genre_val = IntVal int | BoolVal bool | OtherVal string

fun isinstance_int :: "genre_val \<Rightarrow> bool" where
  "isinstance_int (IntVal i) = True"
| "isinstance_int (BoolVal b) = True"
| "isinstance_int (OtherVal s) = False"

fun int_of :: "genre_val \<Rightarrow> int" where
  "int_of (IntVal i) = i"
| "int_of (BoolVal b) = (if b then 1 else 0)"
| "int_of (OtherVal s) = 0"

definition GENRES :: "string list" where
  "GENRES = [''blues'', ''classical'', ''country'', ''disco'', ''hiphop'',
             ''jazz'', ''metal'', ''pop'', ''reggae'', ''rock'']"

subsection \<open>Arrays and the library\<close>

datatype dtype = Float32 | Float64 | Int64

text \<open>A one-dimensional NumPy array of numbers.\<close>

record ndarray =
  dtype :: dtype
  data :: "sample list"

definition len :: "ndarray \<Rightarrow> nat" where
  "len a = length (data a)"

text \<open>A two-dimensional tensor, as the pretrained model returns them: \<open>nrows\<close> frames of
  \<open>ncols\<close> entries each. The entries are opaque to the script.\<close>

record 'e tensor =
  nrows :: nat
  ncols :: nat
  entry :: "nat \<Rightarrow> nat \<Rightarrow> 'e"

text \<open>The result of \<^verbatim>\<open>np.array\<close> on a list of vectors: its shape and its rows.\<close>

record 'e array2 =
  shape :: "nat list"
  rows :: "'e list list"

text \<open>What the script prints, line by line.\<close>

datatype line =
    SimpleLine
  | InvalidGenreLine genre_val
  | ProcessedLine nat
  | ErrorLine exn
  | TotalLine nat nat
  | DatasetLine nat nat
  | TrainTestLine nat nat
  | OtherLine string

text \<open>
  The library calls of the script whose numeric results it never inspects:
  \<^item> \<open>linspace_val start stop num i\<close>: the \<open>i\<close>-th point of \<^verbatim>\<open>np.linspace(start, stop, num)\<close>;
  \<^item> \<open>interp_val xp fp x\<close>: the value at \<open>x\<close> of the interpolant \<^verbatim>\<open>np.interp\<close> builds;
  \<^item> \<open>yamnet_model\<close>: the pretrained model, returning scores, embeddings and spectrogram,
    or raising;
  \<^item> \<open>mean\<close>: the arithmetic mean \<^verbatim>\<open>tf.reduce_mean\<close> takes of one column;
  \<^item> \<open>permutation n\<close>: the result of \<^verbatim>\<open>np.random.permutation(n)\<close>;
  \<^item> \<open>train_and_export\<close>: everything \<^verbatim>\<open>main\<close> does after the split (building, fitting,
    evaluating, converting, saving and verifying the classifier), with what it prints.
\<close>

record 'e lib =
  linspace_val :: "rat \<Rightarrow> rat \<Rightarrow> nat \<Rightarrow> nat \<Rightarrow> rat"
  interp_val :: "sample list \<Rightarrow> sample list \<Rightarrow> sample \<Rightarrow> sample"
  yamnet_model :: "ndarray \<Rightarrow> exn + ('e tensor \<times> 'e tensor \<times> 'e tensor)"
  mean :: "'e list \<Rightarrow> 'e"
  permutation :: "nat \<Rightarrow> nat list"
  train_and_export ::
    "'e list list \<times> 'e list list \<times> genre_val list \<times> genre_val list \<Rightarrow> line list \<times> (exn + unit)"

text \<open>\<^verbatim>\<open>np.array(xs, dtype=np.float32)\<close> and \<^verbatim>\<open>a.astype(np.float32)\<close>.\<close>

definition np_array_float32 :: "sample list \<Rightarrow> ndarray" where
  "np_array_float32 xs = \<lparr>dtype = Float32, data = map cast_float32 xs\<rparr>"

definition astype_float32 :: "ndarray \<Rightarrow> ndarray" where
  "astype_float32 a = \<lparr>dtype = Float32, data = map cast_float32 (data a)\<rparr>"

text \<open>\<^verbatim>\<open>np.arange(n)\<close>.\<close>

definition np_arange :: "nat \<Rightarrow> ndarray" where
  "np_arange n = \<lparr>dtype = Int64, data = map (\<lambda>i. Finite (of_nat i)) [0..<n]\<rparr>"

text \<open>\<^verbatim>\<open>np.linspace(start, stop, num)\<close>: \<open>num\<close> points, ValueError for a negative \<open>num\<close>.\<close>

definition np_linspace :: "'e lib \<Rightarrow> rat \<Rightarrow> rat \<Rightarrow> int \<Rightarrow> exn + ndarray" where
  "np_linspace lib start stop num =
     (if num < 0 then Inl ValueError
      else Inr \<lparr>dtype = Float64,
                data = map (\<lambda>i. Finite (linspace_val lib start stop (nat num) i))
                         [0..<nat num]\<rparr>)"

text \<open>\<^verbatim>\<open>np.interp(x, xp, fp)\<close>: one value for each point of \<open>x\<close>; ValueError when \<open>xp\<close> is
  empty or \<open>fp\<close> has another length.\<close>

definition np_interp :: "'e lib \<Rightarrow> ndarray \<Rightarrow> ndarray \<Rightarrow> ndarray \<Rightarrow> exn + ndarray" where
  "np_interp lib x xp fp =
     (if len xp = 0 then Inl ValueError
      else if len fp \<noteq> len xp then Inl ValueError
      else Inr \<lparr>dtype = Float64, data = map (interp_val lib (data xp) (data fp)) (data x)\<rparr>)"

text \<open>\<^verbatim>\<open>np.abs(a).max()\<close>: ValueError on an empty array, NaN when a sample is NaN.\<close>

fun max_list :: "sample list \<Rightarrow> sample" where
  "max_list [] = Finite 0"
| "max_list [x] = x"
| "max_list (x # y # ys) = sample_max x (max_list (y # ys))"

definition np_abs_max :: "ndarray \<Rightarrow> exn + sample" where
  "np_abs_max a =
     (if data a = [] then Inl ValueError else Inr (max_list (map sample_abs (data a))))"

text \<open>\<^verbatim>\<open>a / 32768.0\<close> on a float32 array: a float32 array.\<close>

definition div_scalar :: "ndarray \<Rightarrow> rat \<Rightarrow> ndarray" where
  "div_scalar a c = \<lparr>dtype = Float32, data = map (\<lambda>s. sample_div s c) (data a)\<rparr>"

text \<open>\<^verbatim>\<open>tf.reduce_mean(t, axis=0)\<close>: the mean of each column, over the rows.\<close>

definition reduce_mean_axis0 :: "'e lib \<Rightarrow> 'e tensor \<Rightarrow> 'e list" where
  "reduce_mean_axis0 lib t =
     map (\<lambda>j. mean lib (map (\<lambda>i. entry t i j) [0..<nrows t])) [0..<ncols t]"

text \<open>\<^verbatim>\<open>np.array(vs)\<close> on a list of vectors: shape \<open>(0,)\<close> for the empty list, shape
  \<open>(n, w)\<close> for \<open>n\<close> vectors of length \<open>w\<close>, ValueError for vectors of different lengths.\<close>

definition np_array2 :: "'e list list \<Rightarrow> exn + 'e array2" where
  "np_array2 vs =
     (case vs of
        [] \<Rightarrow> Inr \<lparr>shape = [0], rows = []\<rparr>
      | v # _ \<Rightarrow>
          if list_all (\<lambda>u. length u = length v) vs
          then Inr \<lparr>shape = [length vs, length v], rows = vs\<rparr>
          else Inl ValueError)"

text \<open>\<^verbatim>\<open>X.shape[k]\<close>: IndexError beyond the rank.\<close>

definition shape_at :: "'e array2 \<Rightarrow> nat \<Rightarrow> exn + nat" where
  "shape_at X k = (if k < length (shape X) then Inr (shape X ! k) else Inl IndexError)"

text \<open>\<^verbatim>\<open>a[indices]\<close> with an array of non-negative indices: IndexError when one is out of
  bounds.\<close>

definition take_indices :: "'a list \<Rightarrow> nat list \<Rightarrow> exn + 'a list" where
  "take_indices xs indices =
     (if list_all (\<lambda>i. i < length xs) indices then Inr (map (\<lambda>i. xs ! i) indices)
      else Inl IndexError)"

subsection \<open>\<^verbatim>\<open>extract_embeddings\<close>\<close>

definition extract_embeddings :: "ndarray \<Rightarrow> 'e lib \<Rightarrow> exn + 'e list" where
  "extract_embeddings audio_samples lib =
     (let a1 = (if dtype audio_samples \<noteq> Float32 then astype_float32 audio_samples
                else audio_samples)
      in case np_abs_max a1 of
           Inl e \<Rightarrow> Inl e
         | Inr m \<Rightarrow>
             (let a2 = (if sample_less (Finite 1) m then div_scalar a1 32768 else a1)
              in (case yamnet_model lib a2 of
                    Inl e \<Rightarrow> Inl e
                  | Inr (scores, embeddings, spectrogram) \<Rightarrow>
                      Inr (reduce_mean_axis0 lib embeddings))))"

subsection \<open>The per-track loop of \<^verbatim>\<open>main\<close>\<close>

record track =
  audio_array :: "sample list"
  sampling_rate :: int
  genre :: genre_val

text \<open>Lines 129 to 133: resampling to 16 kHz.\<close>

definition resample :: "'e lib \<Rightarrow> int \<Rightarrow> ndarray \<Rightarrow> exn + ndarray" where
  "resample lib sample_rate audio =
     (if sample_rate \<noteq> 16000 then
        case py_truediv 16000 sample_rate of
          Inl e \<Rightarrow> Inl e
        | Inr ratio \<Rightarrow>
            (let new_len = py_int (float_mul (float_of_int (int (len audio))) ratio)
             in (case np_linspace lib 0 (of_int (int (len audio) - 1)) new_len of
                   Inl e \<Rightarrow> Inl e
                 | Inr indices \<Rightarrow> np_interp lib indices (np_arange (len audio)) audio))
      else Inr audio)"

text \<open>The body of the \<^verbatim>\<open>try\<close> block, up to the embedding.\<close>

definition process_audio :: "'e lib \<Rightarrow> int \<Rightarrow> ndarray \<Rightarrow> exn + 'e list" where
  "process_audio lib sample_rate audio =
     (case resample lib sample_rate audio of
        Inl e \<Rightarrow> Inl e
      | Inr audio' \<Rightarrow> extract_embeddings audio' lib)"

text \<open>The test of line 123 on \<^verbatim>\<open>genre_idx\<close>.\<close>

definition invalid_genre_index :: "genre_val \<Rightarrow> bool" where
  "invalid_genre_index genre_idx \<longleftrightarrow>
     \<not> isinstance_int genre_idx \<or> int_of genre_idx < 0
       \<or> int_of genre_idx \<ge> int (length GENRES)"

record 'e acc =
  embeddings_list :: "'e list list"
  labels_list :: "genre_val list"
  count :: nat
  errors :: nat
  printed :: "line list"

definition init_acc :: "'e acc" where
  "init_acc = \<lparr>embeddings_list = [], labels_list = [], count = 0, errors = 0, printed = []\<rparr>"

text \<open>One iteration of \<^verbatim>\<open>for example in dataset\<close>.\<close>

definition process_example :: "'e lib \<Rightarrow> track \<Rightarrow> 'e acc \<Rightarrow> 'e acc" where
  "process_example lib example st =
     (let audio = np_array_float32 (audio_array example);
          sample_rate = sampling_rate example;
          genre_idx = genre example
      in if invalid_genre_index genre_idx
         then st\<lparr>printed := printed st @ [InvalidGenreLine genre_idx]\<rparr>
         else case process_audio lib sample_rate audio of
                Inr embedding \<Rightarrow>
                  st\<lparr>embeddings_list := embeddings_list st @ [embedding],
                     labels_list := labels_list st @ [genre_idx],
                     count := count st + 1,
                     printed := printed st @
                       (if (count st + 1) mod 100 = 0 then [ProcessedLine (count st + 1)] else [])\<rparr>
              | Inl e \<Rightarrow>
                  st\<lparr>errors := errors st + 1,
                     printed := printed st @
                       (if errors st + 1 \<le> 5 then [ErrorLine e] else [])\<rparr>)"

definition process_dataset :: "'e lib \<Rightarrow> track list \<Rightarrow> 'e acc \<Rightarrow> 'e acc" where
  "process_dataset lib dataset st = fold (process_example lib) dataset st"

subsection \<open>Shuffle, split and the rest of \<^verbatim>\<open>main\<close>\<close>

text \<open>Lines 156 and 157.\<close>

definition shuffle ::
  "nat list \<Rightarrow> 'a list \<Rightarrow> 'b list \<Rightarrow> exn + ('a list \<times> 'b list)" where
  "shuffle indices X y =
     (case take_indices X indices of
        Inl e \<Rightarrow> Inl e
      | Inr X' \<Rightarrow> (case take_indices y indices of Inl e \<Rightarrow> Inl e | Inr y' \<Rightarrow> Inr (X', y')))"

text \<open>Line 159: \<^verbatim>\<open>int(0.8 * n)\<close>.\<close>

definition split_point :: "nat \<Rightarrow> nat" where
  "split_point n = nat (py_int (float_mul lit_0_8 (float_of_int (int n))))"

text \<open>Lines 160 and 161: \<^verbatim>\<open>a[:split], a[split:]\<close>.\<close>

definition split_at :: "nat \<Rightarrow> 'a list \<Rightarrow> 'a list \<times> 'a list" where
  "split_at split a = (take split a, drop split a)"

definition main :: "'e lib \<Rightarrow> track list \<Rightarrow> line list \<times> (exn + unit)" where
  "main lib dataset =
     (let st = process_dataset lib dataset init_acc;
          out1 = printed st @ [TotalLine (count st) (errors st)]
      in case np_array2 (embeddings_list st) of
           Inl e \<Rightarrow> (out1, Inl e)
         | Inr X \<Rightarrow>
             (let y = labels_list st
              in (case shape_at X 1 of
                    Inl e \<Rightarrow> (out1, Inl e)
                  | Inr width \<Rightarrow>
                      (let out2 = out1 @ [DatasetLine (length (rows X)) width];
                           indices = permutation lib (length (rows X))
                       in (case shuffle indices (rows X) y of
                             Inl e \<Rightarrow> (out2, Inl e)
                           | Inr (X', y') \<Rightarrow>
                               (let split = split_point (length X');
                                    (X_train, X_test) = split_at split X';
                                    (y_train, y_test) = split_at split y';
                                    out3 = out2 @ [TrainTestLine (length X_train) (length X_test)];
                                    (out4, r) =
                                      train_and_export lib (X_train, X_test, y_train, y_test)
                                in (out3 @ out4, r)))))))"

text \<open>The entry point: \<^verbatim>\<open>sys.argv\<close> is the script's name followed by its arguments.\<close>

definition script :: "string list \<Rightarrow> 'e lib \<Rightarrow> track list \<Rightarrow> line list \<times> (exn + unit)" where
  "script argv lib dataset =
     (let pre = (if length argv > 1 \<and> argv ! 1 = ''--simple'' then [SimpleLine] else []);
          (out, r) = main lib dataset
      in (pre @ out, r))"

subsection \<open>A concrete library\<close>

text \<open>
  An instance of the library parameters, for evaluating the model on concrete tracks:
  evenly spaced points and linear interpolation in exact arithmetic (NaN where a sample it
  needs is not finite), a pretrained model that returns one frame of width 1024 for every
  waveform, the exact mean, the permutation that reverses, and a trainer that prints nothing
  and succeeds.
\<close>

fun lerp :: "sample \<Rightarrow> sample \<Rightarrow> rat \<Rightarrow> sample" where
  "lerp (Finite a) (Finite b) t = Finite (a + t * (b - a))"
| "lerp a b t = NaN"

definition example_tensor :: "rat tensor" where
  "example_tensor = \<lparr>nrows = 1, ncols = 1024, entry = (\<lambda>i j. 0)\<rparr>"

definition example_lib :: "rat lib" where
  "example_lib =
     \<lparr>linspace_val = (\<lambda>start stop num i.
          if num \<le> 1 then start else start + of_nat i * (stop - start) / of_nat (num - 1)),
      interp_val = (\<lambda>xp fp x.
          case x of
            Finite x' \<Rightarrow>
              (let j = nat \<lfloor>x'\<rfloor>
               in if j + 1 < length fp then lerp (fp ! j) (fp ! (j + 1)) (x' - of_nat j)
                  else last fp)
          | _ \<Rightarrow> NaN),
      yamnet_model = (\<lambda>a. Inr (example_tensor, example_tensor, example_tensor)),
      mean = (\<lambda>xs. sum_list xs / of_nat (length xs)),
      permutation = (\<lambda>n. rev [0..<n]),
      train_and_export = (\<lambda>parts. ([], Inr ()))\<rparr>"

text \<open>
  The same library with a pretrained model that shows what it is given: one frame whose
  entries are the samples of the waveform, so that the mean over the frames is the waveform
  itself.
\<close>

definition echo_tensor :: "ndarray \<Rightarrow> sample tensor" where
  "echo_tensor a = \<lparr>nrows = 1, ncols = len a, entry = (\<lambda>i j. data a ! j)\<rparr>"

definition echo_lib :: "sample lib" where
  "echo_lib =
     \<lparr>linspace_val = linspace_val example_lib,
      interp_val = interp_val example_lib,
      yamnet_model = (\<lambda>a. Inr (echo_tensor a, echo_tensor a, echo_tensor a)),
      mean = (\<lambda>xs. case xs of [x] \<Rightarrow> x | _ \<Rightarrow> NaN),
      permutation = permutation example_lib,
      train_and_export = (\<lambda>parts. ([], Inr ()))\<rparr>"

subsection \<open>Notions used in the statements\<close>

text \<open>What the \<^verbatim>\<open>try\<close> block computes for a track: its embedding, or the exception raised.\<close>

definition track_embedding :: "'e lib \<Rightarrow> track \<Rightarrow> exn + 'e list" where
  "track_embedding lib t =
     process_audio lib (sampling_rate t) (np_array_float32 (audio_array t))"

text \<open>A track is skipped for its label, or kept, or dropped on an exception.\<close>

definition bad_label :: "track \<Rightarrow> bool" where
  "bad_label t \<longleftrightarrow> invalid_genre_index (genre t)"

definition kept :: "'e lib \<Rightarrow> track \<Rightarrow> bool" where
  "kept lib t \<longleftrightarrow> \<not> invalid_genre_index (genre t) \<and> \<not> isl (track_embedding lib t)"

definition failed :: "'e lib \<Rightarrow> track \<Rightarrow> bool" where
  "failed lib t \<longleftrightarrow> \<not> invalid_genre_index (genre t) \<and> isl (track_embedding lib t)"

fun is_error_line :: "line \<Rightarrow> bool" where
  "is_error_line (ErrorLine e) = True"
| "is_error_line l = False"

fun is_invalid_genre_line :: "line \<Rightarrow> bool" where
  "is_invalid_genre_line (InvalidGenreLine g) = True"
| "is_invalid_genre_line l = False"

text \<open>Three tracks of two silent samples: one of genre 9 and one of genre 10 at 16 kHz, and
  one of genre 3 whose sample rate is 0.\<close>

definition track_9 :: track where
  "track_9 = \<lparr>audio_array = [Finite 0, Finite 0], sampling_rate = 16000, genre = IntVal 9\<rparr>"

definition track_10 :: track where
  "track_10 = \<lparr>audio_array = [Finite 0, Finite 0], sampling_rate = 16000, genre = IntVal 10\<rparr>"

definition track_rate_0 :: track where
  "track_rate_0 = \<lparr>audio_array = [Finite 0, Finite 0], sampling_rate = 0, genre = IntVal 3\<rparr>"

section \<open>Properties of the rounding\<close>

text \<open>
  What the proofs below need of \<open>round_to\<close>: the error of one rounding is at most half a unit
  in the last place, an integer that fits in the significand is represented exactly, and
  rounding never crosses such an integer.
\<close>

lemma rne_floor_le: "\<lfloor>x\<rfloor> \<le> rne x"
  by (simp add: rne_def Let_def)

lemma rne_error: "\<bar>of_int (rne x) - x\<bar> \<le> 1 / 2"
proof -
  have "of_int \<lfloor>x\<rfloor> \<le> x" "x < of_int \<lfloor>x\<rfloor> + 1" by linarith+
  then show ?thesis
    by (auto simp: rne_def Let_def)
qed

lemma rne_of_int: "rne (of_int n) = n"
  by (simp add: rne_def)

lemma rne_ge_int:
  assumes "of_int m \<le> x"
  shows "m \<le> rne x"
proof -
  have "m \<le> \<lfloor>x\<rfloor>" using assms by (simp add: le_floor_iff)
  also have "\<dots> \<le> rne x" by (rule rne_floor_le)
  finally show ?thesis .
qed

lemma ilog2_le:
  assumes "0 < x"
  shows "2 powi ilog2 x \<le> x"
proof -
  obtain a b where q: "quotient_of x = (a, b)" by force
  have b: "0 < b" using quotient_of_denom_pos [OF q] .
  have x: "x = of_int a / of_int b" using quotient_of_div [OF q] .
  have a: "0 < a" using assms b x by (simp add: zero_less_divide_iff)
  have la: "1 \<le> bitlen a" and lb: "1 \<le> bitlen b"
    using a b by (simp_all add: bitlen_alt_def)
  have "(2::int) ^ nat (bitlen a - 1) \<le> a" using bitlen_bounds [OF a] by simp
  then have "(of_int ((2::int) ^ nat (bitlen a - 1)) :: rat) \<le> of_int a"
    by (simp only: of_int_le_iff)
  then have low: "(2::rat) powi (bitlen a - 1) \<le> of_int a"
    using la by (simp add: power_int_nonneg_exp)
  have "b < 2 ^ nat (bitlen b)" using bitlen_bounds [OF b] by simp
  then have "(of_int b :: rat) < of_int ((2::int) ^ nat (bitlen b))"
    by (simp only: of_int_less_iff)
  then have up: "(of_int b :: rat) \<le> 2 powi (bitlen b)"
    using lb by (simp add: power_int_nonneg_exp)
  have "(2::rat) powi (bitlen a - bitlen b - 1) = 2 powi (bitlen a - 1) / 2 powi (bitlen b)"
    using power_int_diff [of "2::rat" "bitlen a - 1" "bitlen b"] by (simp add: algebra_simps)
  also have "\<dots> \<le> of_int a / of_int b"
    using low up a b by (intro frac_le) simp_all
  finally have "(2::rat) powi (bitlen a - bitlen b - 1) \<le> x" by (simp add: x)
  then show ?thesis
    by (simp add: ilog2_def q Let_def)
qed

lemma ilog2_less:
  assumes "0 < x" "x < 2 powi k"
  shows "ilog2 x < k"
proof (rule ccontr)
  assume "\<not> ilog2 x < k"
  then have "(2::rat) powi k \<le> 2 powi ilog2 x"
    by (intro power_int_increasing) simp_all
  with ilog2_le [OF assms(1)] assms(2) show False by simp
qed

lemma round_to_unfold:
  "x \<noteq> 0 \<Longrightarrow> e = max (ilog2 \<bar>x\<bar> - (int p - 1)) emin \<Longrightarrow>
     round_to p emin x = of_int (rne (x / 2 powi e)) * 2 powi e"
  by (simp add: round_to_def Let_def)

lemma round_to_error:
  assumes "x \<noteq> 0" "e = max (ilog2 \<bar>x\<bar> - (int p - 1)) emin"
  shows "\<bar>round_to p emin x - x\<bar> \<le> 2 powi e / 2"
proof -
  have pos: "(0::rat) < 2 powi e" by simp
  have "round_to p emin x - x = (of_int (rne (x / 2 powi e)) - x / 2 powi e) * 2 powi e"
    using round_to_unfold [OF assms] by (simp add: algebra_simps)
  then have "\<bar>round_to p emin x - x\<bar> = \<bar>of_int (rne (x / 2 powi e)) - x / 2 powi e\<bar> * 2 powi e"
    by (simp add: abs_mult)
  also have "\<dots> \<le> (1 / 2) * 2 powi e"
    using rne_error [of "x / 2 powi e"] by (intro mult_right_mono) simp_all
  finally show ?thesis by simp
qed

lemma round_to_error_bound:
  "\<bar>round_to p emin x - x\<bar> \<le> \<bar>x\<bar> * 2 powi (- int p) + 2 powi (emin - 1)"
proof (cases "x = 0")
  case True
  then show ?thesis by (simp add: round_to_def)
next
  case False
  define e where "e = max (ilog2 \<bar>x\<bar> - (int p - 1)) emin"
  have err: "\<bar>round_to p emin x - x\<bar> \<le> 2 powi e / 2"
    using round_to_error [OF False e_def] .
  have half: "(2::rat) powi e / 2 = 2 powi (e - 1)" for e :: int
    using power_int_diff [of "2::rat" e 1] by simp
  show ?thesis
  proof (cases "emin \<le> ilog2 \<bar>x\<bar> - (int p - 1)")
    case True
    then have "e - 1 = ilog2 \<bar>x\<bar> + (- int p)" by (simp add: e_def)
    then have "(2::rat) powi e / 2 = 2 powi (ilog2 \<bar>x\<bar> + (- int p))"
      by (simp only: half)
    also have "\<dots> = 2 powi ilog2 \<bar>x\<bar> * 2 powi (- int p)"
      by (rule power_int_add) simp
    also have "\<dots> \<le> \<bar>x\<bar> * 2 powi (- int p)"
      using ilog2_le [of "\<bar>x\<bar>"] False by (intro mult_right_mono) simp_all
    finally have "(2::rat) powi e / 2 \<le> \<bar>x\<bar> * 2 powi (- int p)" .
    moreover have "(0::rat) \<le> 2 powi (emin - 1)" by simp
    ultimately show ?thesis using err by linarith
  next
    case False
    then have "e = emin" by (simp add: e_def)
    then have "(2::rat) powi e / 2 = 2 powi (emin - 1)" by (simp add: half)
    moreover have "0 \<le> \<bar>x\<bar> * 2 powi (- int p)" by simp
    ultimately show ?thesis using err by linarith
  qed
qed

lemma round_to_nonneg: "0 \<le> x \<Longrightarrow> 0 \<le> round_to p emin x"
proof (cases "x = 0")
  case True
  then show ?thesis by (simp add: round_to_def)
next
  case False
  assume "0 \<le> x"
  define e where "e = max (ilog2 \<bar>x\<bar> - (int p - 1)) emin"
  have "(of_int 0 :: rat) \<le> x / 2 powi e" using \<open>0 \<le> x\<close> by simp
  then have "0 \<le> rne (x / 2 powi e)" by (rule rne_ge_int)
  then show ?thesis
    by (simp add: round_to_unfold [OF False e_def])
qed

lemma scaled_int:
  assumes "e \<le> 0"
  shows "(of_int n :: rat) / 2 powi e = of_int (n * 2 ^ nat (- e))"
proof -
  have "(2::rat) powi e = 1 / 2 powi (- e)"
    using power_int_minus_divide [of "2::rat" "- e"] by simp
  also have "(2::rat) powi (- e) = 2 ^ nat (- e)"
    using assms by (simp add: power_int_nonneg_exp)
  finally show ?thesis by simp
qed

lemma round_to_of_int:
  assumes "\<bar>n\<bar> < 2 ^ p" "emin \<le> 0"
  shows "round_to p emin (of_int n) = of_int n"
proof (cases "n = 0")
  case True
  then show ?thesis by (simp add: round_to_def)
next
  case False
  define e where "e = max (ilog2 \<bar>of_int n\<bar> - (int p - 1)) emin"
  have "(of_int \<bar>n\<bar> :: rat) < of_int (2 ^ p)" using assms(1) by (simp only: of_int_less_iff)
  then have "\<bar>of_int n :: rat\<bar> < 2 powi int p" by simp
  moreover have "(0::rat) < \<bar>of_int n\<bar>" using False by simp
  ultimately have "ilog2 \<bar>of_int n\<bar> < int p" by (intro ilog2_less)
  then have e: "e \<le> 0" using assms(2) by (simp add: e_def)
  have nz: "(of_int n :: rat) \<noteq> 0" using False by simp
  have "round_to p emin (of_int n) = of_int (n * 2 ^ nat (- e)) * 2 powi e"
    by (simp only: round_to_unfold [OF nz e_def] scaled_int [OF e] rne_of_int)
  also have "\<dots> = of_int n / 2 powi e * 2 powi e"
    by (simp only: scaled_int [OF e])
  finally show ?thesis by simp
qed


lemma float64_error:
  "\<bar>float64 x - x\<bar> \<le> \<bar>x\<bar> / 2 ^ 53 + 1 / 2 ^ 1075"
proof -
  have "(2::rat) powi (- int 53) = 1 / 2 ^ 53"
    by (simp add: power_int_minus_divide)
  moreover have "(2::rat) powi (- 1074 - 1) = 1 / 2 ^ 1075"
    using power_int_minus_divide [of "2::rat" 1075] by simp
  ultimately show ?thesis
    using round_to_error_bound [of 53 "- 1074" x] by (simp add: float64_def)
qed

lemma float64_nonneg: "0 \<le> x \<Longrightarrow> 0 \<le> float64 x"
  by (simp add: float64_def round_to_nonneg)

lemma float64_of_int: "\<bar>n\<bar> < 2 ^ 53 \<Longrightarrow> float64 (of_int n) = of_int n"
  by (simp add: float64_def round_to_of_int)



lemma tiny: "(1::rat) / 2 ^ 1075 \<le> 1 / 2 ^ 10"
  by (intro divide_left_mono power_increasing) simp_all

subsection \<open>The rounding is to nearest, ties to even\<close>

text \<open>
  Not needed by the claims, but by the reader who compares \<open>round_to\<close> with IEEE 754:
  \<open>ilog2\<close> is the exponent of its argument, \<open>rne\<close> picks a nearest integer and the even one
  at a tie, every number with a \<open>p\<close>-bit significand and an exponent of at least \<open>emin\<close> is
  a fixed point, and so the float32 division of a float32 sample by 32768 is exact unless it
  underflows.
\<close>

lemma ilog2_upper:
  assumes "0 < x"
  shows "x < 2 powi (ilog2 x + 1)"
proof -
  obtain a b where q: "quotient_of x = (a, b)" by force
  have b: "0 < b" using quotient_of_denom_pos [OF q] .
  have x: "x = of_int a / of_int b" using quotient_of_div [OF q] .
  have a: "0 < a" using assms b x by (simp add: zero_less_divide_iff)
  have la: "1 \<le> bitlen a" and lb: "1 \<le> bitlen b"
    using a b by (simp_all add: bitlen_alt_def)
  have "a < 2 ^ nat (bitlen a)" using bitlen_bounds [OF a] by simp
  then have "(of_int a :: rat) < of_int ((2::int) ^ nat (bitlen a))"
    by (simp only: of_int_less_iff)
  then have up: "(of_int a :: rat) < 2 powi (bitlen a)"
    using la by (simp add: power_int_nonneg_exp)
  have "(2::int) ^ nat (bitlen b - 1) \<le> b" using bitlen_bounds [OF b] by simp
  then have "(of_int ((2::int) ^ nat (bitlen b - 1)) :: rat) \<le> of_int b"
    by (simp only: of_int_le_iff)
  then have low: "(2::rat) powi (bitlen b - 1) \<le> of_int b"
    using lb by (simp add: power_int_nonneg_exp)
  have "x < 2 powi (bitlen a) / 2 powi (bitlen b - 1)"
    unfolding x using up low a b by (intro frac_less) simp_all
  also have "\<dots> = 2 powi (bitlen a - (bitlen b - 1))"
    by (rule power_int_diff [symmetric]) simp
  finally have k1: "x < 2 powi (bitlen a - bitlen b + 1)" by (simp add: algebra_simps)
  show ?thesis
  proof (cases "2 powi (bitlen a - bitlen b) \<le> x")
    case True
    then show ?thesis using k1 by (simp add: ilog2_def q)
  next
    case False
    then show ?thesis by (simp add: ilog2_def q)
  qed
qed

lemma rne_nearest: "\<bar>of_int (rne x) - x\<bar> \<le> \<bar>of_int n - x\<bar>"
proof -
  have fl: "of_int \<lfloor>x\<rfloor> \<le> x" "x < of_int \<lfloor>x\<rfloor> + 1" by linarith+
  consider "n \<le> \<lfloor>x\<rfloor>" | "\<lfloor>x\<rfloor> + 1 \<le> n" by linarith
  then show ?thesis
  proof cases
    case 1
    then have "(of_int n :: rat) \<le> of_int \<lfloor>x\<rfloor>" by (simp only: of_int_le_iff)
    then show ?thesis using fl by (auto simp: rne_def Let_def)
  next
    case 2
    then have "(of_int (\<lfloor>x\<rfloor> + 1) :: rat) \<le> of_int n" by (simp only: of_int_le_iff)
    then have "(of_int \<lfloor>x\<rfloor> :: rat) + 1 \<le> of_int n" by simp
    then show ?thesis using fl by (auto simp: rne_def Let_def)
  qed
qed

lemma rne_tie_even: "x - of_int \<lfloor>x\<rfloor> = 1 / 2 \<Longrightarrow> even (rne x)"
  by (simp add: rne_def Let_def)

lemma round_to_representable:
  assumes m: "\<bar>m\<bar> < 2 ^ p" and e: "emin \<le> e"
  shows "round_to p emin (of_int m * 2 powi e) = of_int m * 2 powi e"
proof (cases "m = 0")
  case True
  then show ?thesis by (simp add: round_to_def)
next
  case False
  define x :: rat where "x = of_int m * 2 powi e"
  define e' where "e' = max (ilog2 \<bar>x\<bar> - (int p - 1)) emin"
  have nz: "x \<noteq> 0" using False by (simp add: x_def)
  have "(of_int \<bar>m\<bar> :: rat) < of_int (2 ^ p)" using m by (simp only: of_int_less_iff)
  then have "\<bar>of_int m :: rat\<bar> < 2 powi int p" by simp
  then have "\<bar>x\<bar> < 2 powi int p * 2 powi e"
    unfolding x_def abs_mult by (simp add: mult_strict_right_mono)
  also have "\<dots> = 2 powi (int p + e)" by (rule power_int_add [symmetric]) simp
  finally have "ilog2 \<bar>x\<bar> < int p + e" using nz by (intro ilog2_less) simp_all
  then have le: "e' \<le> e" using e by (simp add: e'_def)
  have "x / 2 powi e' = of_int m * (2 powi e / 2 powi e')" by (simp add: x_def)
  also have "(2::rat) powi e / 2 powi e' = 2 powi (e - e')"
    by (rule power_int_diff [symmetric]) simp
  also have "\<dots> = of_int (2 ^ nat (e - e'))" using le by (simp add: power_int_nonneg_exp)
  finally have sc: "x / 2 powi e' = of_int (m * 2 ^ nat (e - e'))" by simp
  have "round_to p emin x = of_int (m * 2 ^ nat (e - e')) * 2 powi e'"
    by (simp only: round_to_unfold [OF nz e'_def] sc rne_of_int)
  also have "\<dots> = x / 2 powi e' * 2 powi e'" by (simp only: sc)
  finally show ?thesis by (simp add: x_def)
qed

lemma float32_div_32768:
  assumes "\<bar>m\<bar> < 2 ^ 24" and "- 134 \<le> e"
  shows "round_to 24 (- 149) (of_int m * 2 powi e / 32768) = of_int m * 2 powi e / 32768"
proof -
  have "(2::rat) powi (e - 15) = 2 powi e / 2 powi 15" by (rule power_int_diff) simp
  then have eq: "of_int m * 2 powi e / 32768 = (of_int m :: rat) * 2 powi (e - 15)" by simp
  have "- 149 \<le> e - 15" using assms(2) by simp
  from round_to_representable [OF assms(1) this] show ?thesis
    by (simp only: eq)
qed

lemma sample_div_32768:
  assumes m: "\<bar>m\<bar> < 2 ^ 24" and lo: "- 134 \<le> e" and hi: "e \<le> 104"
  shows "sample_div (Finite (of_int m * 2 powi e)) 32768 = Finite (of_int m * 2 powi e / 32768)"
proof -
  define y :: rat where "y = of_int m * 2 powi e / 32768"
  have r: "round_to 24 (- 149) y = y" unfolding y_def by (rule float32_div_32768 [OF m lo])
  have "\<bar>of_int m :: rat\<bar> \<le> 2 ^ 24"
  proof -
    have "(of_int \<bar>m\<bar> :: rat) \<le> of_int (2 ^ 24)" using m by (simp only: of_int_le_iff)
    then show ?thesis by simp
  qed
  moreover have "(2::rat) powi e \<le> 2 powi 104" using hi by (intro power_int_increasing) simp_all
  ultimately have "\<bar>of_int m :: rat\<bar> * 2 powi e \<le> 2 ^ 24 * 2 powi 104"
    by (intro mult_mono) simp_all
  then have "\<bar>y\<bar> \<le> 2 ^ 24 * 2 powi 104 / 32768"
    by (simp add: y_def abs_mult divide_right_mono)
  also have "\<dots> < (2::rat) ^ 128" by (simp add: power_int_def)
  finally have "\<not> 2 ^ 128 \<le> \<bar>y\<bar>" by simp
  with r show ?thesis by (simp add: float32_def Let_def flip: y_def)
qed
section \<open>The per-track loop\<close>

subsection \<open>One iteration, by the fate of the track\<close>

lemma process_example_bad:
  "bad_label t \<Longrightarrow>
     process_example lib t st = st\<lparr>printed := printed st @ [InvalidGenreLine (genre t)]\<rparr>"
  by (simp add: process_example_def bad_label_def)

lemma process_example_kept:
  "kept lib t \<Longrightarrow>
     process_example lib t st =
       st\<lparr>embeddings_list := embeddings_list st @ [projr (track_embedding lib t)],
          labels_list := labels_list st @ [genre t],
          count := count st + 1,
          printed := printed st @
            (if (count st + 1) mod 100 = 0 then [ProcessedLine (count st + 1)] else [])\<rparr>"
  by (cases "track_embedding lib t")
     (simp_all add: process_example_def kept_def track_embedding_def)

lemma process_example_failed:
  "failed lib t \<Longrightarrow>
     process_example lib t st =
       st\<lparr>errors := errors st + 1,
          printed := printed st @
            (if errors st + 1 \<le> 5 then [ErrorLine (projl (track_embedding lib t))] else [])\<rparr>"
  by (cases "track_embedding lib t")
     (simp_all add: process_example_def failed_def track_embedding_def)

lemma track_cases:
  obtains (bad) "bad_label t" "\<not> kept lib t" "\<not> failed lib t"
        | (kept) "kept lib t" "\<not> bad_label t" "\<not> failed lib t"
        | (failed) "failed lib t" "\<not> bad_label t" "\<not> kept lib t"
  by (auto simp: bad_label_def kept_def failed_def)

lemma process_dataset_Cons:
  "process_dataset lib (t # ds) st = process_dataset lib ds (process_example lib t st)"
  by (simp add: process_dataset_def)

lemma process_dataset_Nil: "process_dataset lib [] st = st"
  by (simp add: process_dataset_def)

lemma labels_list_process_dataset:
  "labels_list (process_dataset lib ds st) = labels_list st @ map genre (filter (kept lib) ds)"
proof (induction ds arbitrary: st)
  case Nil
  show ?case by (simp add: process_dataset_Nil)
next
  case (Cons t ds)
  show ?case
    by (cases t rule: track_cases [of _ lib])
       (simp_all add: process_dataset_Cons Cons.IH process_example_bad process_example_kept
          process_example_failed)
qed

lemma embeddings_list_process_dataset:
  "embeddings_list (process_dataset lib ds st) =
     embeddings_list st @ map (\<lambda>t. projr (track_embedding lib t)) (filter (kept lib) ds)"
proof (induction ds arbitrary: st)
  case Nil
  show ?case by (simp add: process_dataset_Nil)
next
  case (Cons t ds)
  show ?case
    by (cases t rule: track_cases [of _ lib])
       (simp_all add: process_dataset_Cons Cons.IH process_example_bad process_example_kept
          process_example_failed)
qed

lemma count_process_dataset:
  "count (process_dataset lib ds st) = count st + length (filter (kept lib) ds)"
proof (induction ds arbitrary: st)
  case Nil
  show ?case by (simp add: process_dataset_Nil)
next
  case (Cons t ds)
  show ?case
    by (cases t rule: track_cases [of _ lib])
       (simp_all add: process_dataset_Cons Cons.IH process_example_bad process_example_kept
          process_example_failed)
qed

lemma errors_process_dataset:
  "errors (process_dataset lib ds st) = errors st + length (filter (failed lib) ds)"
proof (induction ds arbitrary: st)
  case Nil
  show ?case by (simp add: process_dataset_Nil)
next
  case (Cons t ds)
  show ?case
    by (cases t rule: track_cases [of _ lib])
       (simp_all add: process_dataset_Cons Cons.IH process_example_bad process_example_kept
          process_example_failed)
qed

lemma invalid_lines_process_dataset:
  "filter is_invalid_genre_line (printed (process_dataset lib ds st)) =
     filter is_invalid_genre_line (printed st) @
       map (\<lambda>t. InvalidGenreLine (genre t)) (filter bad_label ds)"
proof (induction ds arbitrary: st)
  case Nil
  show ?case by (simp add: process_dataset_Nil)
next
  case (Cons t ds)
  show ?case
    by (cases t rule: track_cases [of _ lib])
       (simp_all add: process_dataset_Cons Cons.IH process_example_bad process_example_kept
          process_example_failed)
qed

lemma error_lines_process_dataset:
  "length (filter is_error_line (printed st)) = min 5 (errors st) \<Longrightarrow>
   length (filter is_error_line (printed (process_dataset lib ds st))) =
     min 5 (errors (process_dataset lib ds st))"
proof (induction ds arbitrary: st)
  case Nil
  then show ?case by (simp add: process_dataset_Nil)
next
  case (Cons t ds)
  have "length (filter is_error_line (printed (process_example lib t st))) =
          min 5 (errors (process_example lib t st))"
    using Cons.prems
    by (cases t rule: track_cases [of _ lib])
       (simp_all add: process_example_bad process_example_kept process_example_failed)
  then show ?case
    by (simp add: process_dataset_Cons Cons.IH)
qed


subsection \<open>The example tracks\<close>

lemma example_yamnet: "yamnet_model example_lib a = Inr (example_tensor, example_tensor, example_tensor)"
  by (simp add: example_lib_def)

lemma bad_label_track_10: "bad_label track_10"
  by (simp add: bad_label_def track_10_def invalid_genre_index_def GENRES_def)

lemma track_embedding_track_9:
  "track_embedding example_lib track_9 = Inr (reduce_mean_axis0 example_lib example_tensor)"
  by (simp add: track_embedding_def track_9_def process_audio_def resample_def
      extract_embeddings_def np_array_float32_def float32_def round_to_def np_abs_max_def
      Let_def example_yamnet)

lemma kept_track_9: "kept example_lib track_9"
  by (simp add: kept_def track_embedding_track_9)
     (simp add: track_9_def invalid_genre_index_def GENRES_def)

lemma track_embedding_track_rate_0:
  "track_embedding example_lib track_rate_0 = Inl ZeroDivisionError"
  by (simp add: track_embedding_def track_rate_0_def process_audio_def resample_def
      py_truediv_def)

lemma failed_track_rate_0: "failed example_lib track_rate_0"
  by (simp add: failed_def track_embedding_track_rate_0)
     (simp add: track_rate_0_def invalid_genre_index_def GENRES_def)

subsection \<open>What the assembler keeps\<close>




subsection \<open>Failures of single tracks\<close>

text \<open>
  Six tracks labelled 10: none is counted in \<^verbatim>\<open>errors\<close>, and each of the six is reported,
  not only the first five.
\<close>

theorem failure_handling_counterexample:
  "errors (process_dataset example_lib (replicate 6 track_10) init_acc) = 0
   \<and> printed (process_dataset example_lib (replicate 6 track_10) init_acc)
       = replicate 6 (InvalidGenreLine (IntVal 10))"
  using bad_label_track_10
  by (simp add: process_dataset_def process_example_bad numeral_eq_Suc init_acc_def)
     (simp add: track_10_def)

text \<open>
  C4, as the code has it. The loop runs over every track of the stream and always ends with
  an accumulator: no failure of a single track aborts it. An exception raised while
  resampling or extracting is caught and counted in \<^verbatim>\<open>errors\<close>, and a line is printed for
  the first five of them only. A bad genre label is not counted: it is reported by a line of
  its own on every occurrence. In both cases only that track is dropped: the tracks kept,
  in stream order, are exactly those with a valid label whose processing raised nothing.
\<close>

theorem failure_handling:
  fixes lib :: "'e lib"
  shows
  "errors (process_dataset lib ds init_acc) = length (filter (failed lib) ds)
   \<and> length (filter is_error_line (printed (process_dataset lib ds init_acc)))
       = min 5 (length (filter (failed lib) ds))
   \<and> filter is_invalid_genre_line (printed (process_dataset lib ds init_acc))
       = map (\<lambda>t. InvalidGenreLine (genre t)) (filter bad_label ds)
   \<and> count (process_dataset lib ds init_acc) = length (filter (kept lib) ds)
   \<and> labels_list (process_dataset lib ds init_acc) = map genre (filter (kept lib) ds)
   \<and> embeddings_list (process_dataset lib ds init_acc)
       = map (\<lambda>t. projr (track_embedding lib t)) (filter (kept lib) ds)"
proof -
  have "length (filter is_error_line (printed (init_acc :: 'e acc))) = min 5 (errors (init_acc :: 'e acc))"
    by (simp add: init_acc_def)
  from error_lines_process_dataset [OF this, of lib ds]
  have "length (filter is_error_line (printed (process_dataset lib ds init_acc)))
       = min 5 (length (filter (failed lib) ds))"
    by (simp add: errors_process_dataset init_acc_def)
  then show ?thesis
    by (simp add: errors_process_dataset invalid_lines_process_dataset count_process_dataset
        labels_list_process_dataset embeddings_list_process_dataset init_acc_def)
qed

theorem failure_handling_witness:
  "errors (process_dataset example_lib (replicate 7 track_rate_0 @ [track_10, track_9]) init_acc) = 7
   \<and> length (filter is_error_line
        (printed (process_dataset example_lib (replicate 7 track_rate_0 @ [track_10, track_9]) init_acc))) = 5
   \<and> labels_list (process_dataset example_lib (replicate 7 track_rate_0 @ [track_10, track_9]) init_acc)
       = [IntVal 9]"
proof -
  have f: "filter (failed example_lib) (replicate 7 track_rate_0 @ [track_10, track_9])
             = replicate 7 track_rate_0"
    using failed_track_rate_0 kept_track_9 bad_label_track_10
    by (simp add: failed_def kept_def bad_label_def)
  have k: "filter (kept example_lib) (replicate 7 track_rate_0 @ [track_10, track_9]) = [track_9]"
    using failed_track_rate_0 kept_track_9 bad_label_track_10
    by (simp add: failed_def kept_def bad_label_def)
  have "genre track_9 = IntVal 9" by (simp add: track_9_def)
  with f k failure_handling [of example_lib "replicate 7 track_rate_0 @ [track_10, track_9]"]
  show ?thesis by simp
qed
section \<open>The embedding extractor\<close>

lemma sample_abs_NaN: "sample_abs s = NaN \<longleftrightarrow> s = NaN"
  by (cases s) simp_all

lemma sample_max_NaN: "sample_max x y = NaN \<longleftrightarrow> x = NaN \<or> y = NaN"
  by (cases x; cases y) simp_all

lemma sample_less_max:
  "sample_less (Finite c) (sample_max x y) \<longleftrightarrow>
     x \<noteq> NaN \<and> y \<noteq> NaN \<and> (sample_less (Finite c) x \<or> sample_less (Finite c) y)"
  by (cases x; cases y) auto

lemma max_list_NaN: "xs \<noteq> [] \<Longrightarrow> max_list xs = NaN \<longleftrightarrow> NaN \<in> set xs"
  by (induction xs rule: max_list.induct) (auto simp: sample_max_NaN)

lemma max_list_less_iff:
  "xs \<noteq> [] \<Longrightarrow>
     sample_less (Finite c) (max_list xs) \<longleftrightarrow>
       NaN \<notin> set xs \<and> (\<exists>x \<in> set xs. sample_less (Finite c) x)"
  by (induction xs rule: max_list.induct) (auto simp: sample_less_max max_list_NaN)

lemma np_abs_max_gt:
  assumes "data a \<noteq> []"
  shows "\<exists>m. np_abs_max a = Inr m
           \<and> (sample_less (Finite 1) m \<longleftrightarrow>
                NaN \<notin> set (data a)
                \<and> (\<exists>s \<in> set (data a). sample_less (Finite 1) (sample_abs s)))"
proof -
  have "(\<exists>s \<in> set (data a). NaN = sample_abs s) \<longleftrightarrow> NaN \<in> set (data a)"
    by (metis sample_abs_NaN)
  then have "NaN \<in> set (map sample_abs (data a)) \<longleftrightarrow> NaN \<in> set (data a)"
    by (simp only: set_map image_iff)
  with assms show ?thesis
    by (simp add: np_abs_max_def max_list_less_iff)
qed

text \<open>
  The test of line 77 reads the samples after their conversion to float32, and a maximum
  that is NaN exceeds nothing. So a float64 waveform with the samples \<open>1 + 2\<^sup>-\<^sup>3\<^sup>0\<close> and \<open>1/2\<close>,
  the first of absolute value above 1.0, reaches the pretrained model as \<open>1\<close> and \<open>1/2\<close>,
  not divided by 32768; a float32 waveform with the samples NaN and 40000 reaches it as it
  is; and the empty waveform does not reach it.
\<close>

theorem extract_embeddings_scaling_counterexample:
  "sample_less (Finite 1) (sample_abs (Finite (1 + 1 / 2 ^ 30)))
   \<and> extract_embeddings \<lparr>dtype = Float64, data = [Finite (1 + 1 / 2 ^ 30), Finite (1 / 2)]\<rparr>
       echo_lib = Inr [Finite 1, Finite (1 / 2)]
   \<and> sample_less (Finite 1) (sample_abs (Finite 40000))
   \<and> extract_embeddings \<lparr>dtype = Float32, data = [NaN, Finite 40000]\<rparr> echo_lib
       = Inr [NaN, Finite 40000]
   \<and> extract_embeddings \<lparr>dtype = Float32, data = []\<rparr> echo_lib = Inl ValueError"
  by code_simp

text \<open>
  C6, as the code has it. For every waveform passed to \<^verbatim>\<open>extract_embeddings\<close>, taken as
  float32 (converted first when it has another dtype): if none of these float32 samples is
  NaN and one of them has an absolute value above 1.0, the pretrained model is applied to
  the array in which every sample is divided by 32768 (a float32 division); otherwise it is
  applied to the float32 samples unscaled. An empty waveform never reaches the model: the
  maximum of no samples raises ValueError.
\<close>

theorem extract_embeddings_scaling:
  "extract_embeddings audio_samples lib =
     (let a1 = (if dtype audio_samples \<noteq> Float32 then astype_float32 audio_samples
                else audio_samples)
      in if data a1 = [] then Inl ValueError
         else case yamnet_model lib
                     (if NaN \<notin> set (data a1)
                         \<and> (\<exists>s \<in> set (data a1). sample_less (Finite 1) (sample_abs s))
                      then \<lparr>dtype = Float32, data = map (\<lambda>s. sample_div s 32768) (data a1)\<rparr>
                      else a1) of
                Inl e \<Rightarrow> Inl e
              | Inr (scores, embeddings, spectrogram) \<Rightarrow> Inr (reduce_mean_axis0 lib embeddings))"
proof -
  define a1 where "a1 = (if dtype audio_samples \<noteq> Float32 then astype_float32 audio_samples
                else audio_samples)"
  show ?thesis
  proof (cases "data a1 = []")
    case True
    then show ?thesis
      by (simp add: extract_embeddings_def Let_def np_abs_max_def flip: a1_def)
  next
    case False
    from np_abs_max_gt [OF this] obtain m where
      m: "np_abs_max a1 = Inr m"
         "sample_less (Finite 1) m \<longleftrightarrow>
            NaN \<notin> set (data a1) \<and> (\<exists>s \<in> set (data a1). sample_less (Finite 1) (sample_abs s))"
      by blast
    with False show ?thesis
      by (simp add: extract_embeddings_def Let_def div_scalar_def flip: a1_def)
  qed
qed

text \<open>
  With the pretrained model that returns its input: the float32 samples 2 and 1/2 reach it
  as \<open>2\<^sup>-\<^sup>1\<^sup>4\<close> and \<open>2\<^sup>-\<^sup>1\<^sup>6\<close>, the samples 1 and -1/2 as they are, and an infinite sample
  stays infinite among the divided ones.
\<close>

lemma float32_2_15: "float32 (1 / 16384) = Finite (1 / 16384)" by code_simp
lemma float32_q: "float32 (1 / 65536) = Finite (1 / 65536)" by code_simp

theorem extract_embeddings_scaling_witness:
  "extract_embeddings \<lparr>dtype = Float32, data = [Finite 2, Finite (1 / 2)]\<rparr> echo_lib
     = Inr [Finite (1 / 16384), Finite (1 / 65536)]
   \<and> extract_embeddings \<lparr>dtype = Float32, data = [Finite 1, Finite (- 1 / 2)]\<rparr> echo_lib
     = Inr [Finite 1, Finite (- 1 / 2)]
   \<and> extract_embeddings \<lparr>dtype = Float32, data = [NegInf, Finite (1 / 2)]\<rparr> echo_lib
     = Inr [NegInf, Finite (1 / 65536)]"
  using
    extract_embeddings_scaling [of "\<lparr>dtype = Float32, data = [Finite 2, Finite (1 / 2)]\<rparr>" echo_lib]
    extract_embeddings_scaling [of "\<lparr>dtype = Float32, data = [Finite 1, Finite (- 1 / 2)]\<rparr>" echo_lib]
    extract_embeddings_scaling [of "\<lparr>dtype = Float32, data = [NegInf, Finite (1 / 2)]\<rparr>" echo_lib]
  by (simp add: float32_2_15 float32_q echo_lib_def echo_tensor_def reduce_mean_axis0_def len_def)

lemma length_reduce_mean_axis0: "length (reduce_mean_axis0 lib t) = ncols t"
  by (simp add: reduce_mean_axis0_def)

text \<open>
  On the empty waveform the extractor returns no vector: it raises ValueError before the
  pretrained model is called, although that model would return frames of width 1024.
\<close>

theorem extract_embeddings_empty_counterexample:
  "extract_embeddings \<lparr>dtype = Float32, data = []\<rparr> example_lib = Inl ValueError
   \<and> yamnet_model example_lib \<lparr>dtype = Float32, data = []\<rparr>
       = Inr (example_tensor, example_tensor, example_tensor)
   \<and> ncols example_tensor = 1024"
  by (simp add: extract_embeddings_def np_abs_max_def example_lib_def example_tensor_def)

text \<open>
  C7, as the code has it. For every non-empty input waveform, whatever its length, the
  extractor returns a vector of length exactly 1024, under the hypothesis that the pretrained
  model returns, for every waveform, per-frame embeddings of width 1024 (any number of
  frames): the mean is taken across the frame axis only.
\<close>

theorem extract_embeddings_length:
  assumes nonempty: "data audio_samples \<noteq> []"
    and model: "\<And>a. \<exists>scores embeddings spectrogram.
                  yamnet_model lib a = Inr (scores, embeddings, spectrogram)
                  \<and> ncols embeddings = 1024"
  shows "\<exists>v. extract_embeddings audio_samples lib = Inr v \<and> length v = 1024"
proof -
  define a1 where "a1 = (if dtype audio_samples \<noteq> Float32 then astype_float32 audio_samples
                else audio_samples)"
  have ne: "data a1 \<noteq> []"
    using nonempty by (simp add: a1_def astype_float32_def)
  then obtain m where m: "np_abs_max a1 = Inr m"
    by (simp add: np_abs_max_def)
  define a2 where "a2 = (if sample_less (Finite 1) m then div_scalar a1 32768 else a1)"
  from model [of a2] obtain scores embeddings spectrogram where
    y: "yamnet_model lib a2 = Inr (scores, embeddings, spectrogram)" and w: "ncols embeddings = 1024"
    by blast
  have "extract_embeddings audio_samples lib = Inr (reduce_mean_axis0 lib embeddings)"
    using m y by (simp add: extract_embeddings_def Let_def flip: a1_def a2_def)
  with w show ?thesis by (simp add: length_reduce_mean_axis0)
qed

theorem extract_embeddings_length_witness:
  "\<exists>v. extract_embeddings \<lparr>dtype = Float32, data = [Finite 0]\<rparr> example_lib = Inr v \<and> length v = 1024"
proof (rule extract_embeddings_length)
  show "data \<lparr>dtype = Float32, data = [Finite 0]\<rparr> \<noteq> []" by simp
next
  fix a
  show "\<exists>scores embeddings spectrogram.
          yamnet_model example_lib a = Inr (scores, embeddings, spectrogram)
          \<and> ncols embeddings = 1024"
    by (simp add: example_lib_def example_tensor_def)
qed

section \<open>Resampling\<close>

text \<open>
  C8. For every waveform whose sample rate already equals 16000 Hz, the resampling step
  returns the input array itself, unchanged.
\<close>

theorem resample_identity: "resample lib 16000 audio = Inr audio"
  by (simp add: resample_def)

subsection \<open>The length of a resampled waveform\<close>

text \<open>
  The new length is \<^verbatim>\<open>int(len(audio) * (16000 / sample_rate))\<close>, two roundings to binary64 and a
  truncation. On an array of fewer than \<open>2\<^sup>36\<close> samples the two roundings move the product by
  at most 3/8.
\<close>

lemma new_len_error:
  fixes L :: nat and R :: int
  assumes R: "R \<noteq> 0" and L: "L < 2 ^ 36"
  defines "x \<equiv> (of_nat L * 16000 / of_int R :: rat)"
  defines "f \<equiv> float_mul (float_of_int (int L)) (float64 (16000 / of_int R))"
  shows "\<bar>f - x\<bar> \<le> 3 / 8" and "0 < R \<Longrightarrow> 0 \<le> f"
proof -
  define r :: rat where "r = 16000 / of_int R"
  define ratio where "ratio = float64 r"
  define l :: rat where "l = of_nat L"
  have "1 \<le> \<bar>R\<bar>" using R by simp
  then have "(of_int 1 :: rat) \<le> of_int \<bar>R\<bar>" by (simp only: of_int_le_iff)
  then have R1: "(1::rat) \<le> \<bar>of_int R\<bar>" by simp
  have "\<bar>r\<bar> = 16000 / \<bar>of_int R\<bar>" by (simp add: r_def)
  also have "\<dots> \<le> 16000 / 1" using R1 by (intro divide_left_mono) simp_all
  finally have r1: "\<bar>r\<bar> \<le> 16000" by simp
  have l0: "0 \<le> l" by (simp add: l_def)
  have "int L < int (2 ^ 36)" using L by (simp only: of_nat_less_iff)
  then have iL: "int L < 68719476736" by simp
  have "(of_nat L :: rat) < of_nat (2 ^ 36)" using L by (simp only: of_nat_less_iff)
  then have l1: "l \<le> 68719476736" by (simp add: l_def)
  have fl: "float_of_int (int L) = l"
    unfolding float_of_int_def l_def using iL float64_of_int [of "int L"] by simp
  have "\<bar>ratio - r\<bar> \<le> \<bar>r\<bar> / 2 ^ 53 + 1 / 2 ^ 1075"
    unfolding ratio_def by (rule float64_error)
  moreover have "(1::rat) / 2 ^ 1075 \<le> 1 / 2 ^ 53"
    by (intro divide_left_mono power_increasing) simp_all
  moreover have "\<bar>r\<bar> / 2 ^ 53 \<le> 16000 / 2 ^ 53"
    using r1 by (intro divide_right_mono) simp_all
  moreover have "(16000::rat) / 2 ^ 53 + 1 / 2 ^ 53 \<le> 1 / 2 ^ 38" by simp
  ultimately have e1: "\<bar>ratio - r\<bar> \<le> 1 / 2 ^ 38" by linarith
  define y where "y = l * ratio"
  have xr: "x = l * r" by (simp add: x_def l_def r_def)
  have "\<bar>y - x\<bar> = l * \<bar>ratio - r\<bar>"
    using l0 by (simp add: y_def xr abs_mult flip: right_diff_distrib)
  also have "\<dots> \<le> 68719476736 * (1 / 2 ^ 38)"
    using l0 l1 e1 by (intro mult_mono) simp_all
  finally have e2: "\<bar>y - x\<bar> \<le> 1 / 4" by simp
  have "\<bar>x\<bar> = l * \<bar>r\<bar>" using l0 by (simp add: xr abs_mult)
  also have "\<dots> \<le> 68719476736 * 16000"
    using l0 l1 r1 by (intro mult_mono) simp_all
  finally have "\<bar>x\<bar> \<le> 1099511627776000" by simp
  then have y1: "\<bar>y\<bar> \<le> 1099511627776001" using e2 by linarith
  have ff: "f = float64 y" by (simp add: f_def float_mul_def fl y_def ratio_def r_def)
  have "\<bar>f - y\<bar> \<le> \<bar>y\<bar> / 2 ^ 53 + 1 / 2 ^ 1075" unfolding ff by (rule float64_error)
  moreover have "\<bar>y\<bar> / 2 ^ 53 \<le> 1099511627776001 / 2 ^ 53"
    using y1 by (intro divide_right_mono) simp_all
  moreover have "(1099511627776001::rat) / 2 ^ 53 + 1 / 2 ^ 10 \<le> 1 / 8" by simp
  ultimately have "\<bar>f - y\<bar> \<le> 1 / 8" using tiny by linarith
  with e2 show "\<bar>f - x\<bar> \<le> 3 / 8" by linarith
  show "0 \<le> f" if "0 < R"
  proof -
    have "0 \<le> r" using that by (simp add: r_def)
    then have "0 \<le> ratio" unfolding ratio_def by (rule float64_nonneg)
    then have "0 \<le> y" using l0 by (simp add: y_def)
    then show ?thesis unfolding ff by (rule float64_nonneg)
  qed
qed

lemma py_int_near:
  fixes f x :: rat
  assumes f: "\<bar>f - x\<bar> \<le> 3 / 8" and k: "\<bar>of_int k - x\<bar> \<le> 1 / 2"
  shows "\<bar>py_int f - k\<bar> \<le> 1"
proof -
  have m: "of_int \<lfloor>f\<rfloor> \<le> f" "f < of_int \<lfloor>f\<rfloor> + 1" by linarith+
  have "(of_int \<lfloor>f\<rfloor> :: rat) < of_int k + 1" using f k m by linarith
  then have "(of_int \<lfloor>f\<rfloor> :: rat) < of_int (k + 1)" by simp
  then have a: "\<lfloor>f\<rfloor> < k + 1" by (simp only: of_int_less_iff)
  have "(of_int k :: rat) < of_int \<lfloor>f\<rfloor> + 2" using f k m by linarith
  then have "(of_int k :: rat) < of_int (\<lfloor>f\<rfloor> + 2)" by simp
  then have b: "k < \<lfloor>f\<rfloor> + 2" by (simp only: of_int_less_iff)
  show ?thesis
  proof (cases "0 \<le> f")
    case True
    then have "py_int f = \<lfloor>f\<rfloor>" by (simp add: py_int_def)
    with a b show ?thesis by simp
  next
    case False
    then have n: "py_int f = \<lceil>f\<rceil>" by (simp add: py_int_def ceiling_def)
    have "(of_int \<lceil>f\<rceil> :: rat) < f + 1" by linarith
    then have "(of_int \<lceil>f\<rceil> :: rat) < of_int k + 15 / 8" using f k by linarith
    then have "(of_int \<lceil>f\<rceil> :: rat) < of_int (k + 2)" by simp
    then have "\<lceil>f\<rceil> < k + 2" by (simp only: of_int_less_iff)
    moreover have "\<lfloor>f\<rfloor> \<le> \<lceil>f\<rceil>" by (rule floor_le_ceiling)
    ultimately show ?thesis using b n by linarith
  qed
qed

lemma resample_cases:
  fixes lib :: "'e lib" and sample_rate :: int and audio :: ndarray
  assumes "sample_rate \<noteq> 16000" "sample_rate \<noteq> 0"
  defines "new_len \<equiv>
    py_int (float_mul (float_of_int (int (len audio))) (float64 (16000 / of_int sample_rate)))"
  shows "resample lib sample_rate audio =
     (if new_len < 0 \<or> len audio = 0 then Inl ValueError
      else Inr \<lparr>dtype = Float64,
             data = map (interp_val lib (data (np_arange (len audio))) (data audio))
               (map (\<lambda>i. Finite (linspace_val lib 0 (of_int (int (len audio) - 1)) (nat new_len) i))
                  [0..<nat new_len])\<rparr>)"
  using assms(1,2)
  by (simp add: resample_def py_truediv_def Let_def np_linspace_def np_interp_def len_def
      np_arange_def new_len_def)

text \<open>
  C3. For every input waveform of length \<open>L\<close> (below \<open>2\<^sup>36\<close> samples, a month of audio at
  22050 Hz) at a source rate \<open>R\<close> other than 16000: whenever the resampling returns an array, its
  length is within 1 sample of \<open>round (L * 16000 / R)\<close> (the code truncates where the formula
  rounds); and it does return one for every positive rate and non-empty waveform.
\<close>

theorem resample_length:
  assumes rate: "sample_rate \<noteq> 16000" and audio: "len audio < 2 ^ 36"
  shows "(\<forall>out. resample lib sample_rate audio = Inr out \<longrightarrow>
            \<bar>int (len out) - round (of_nat (len audio) * 16000 / of_int sample_rate :: rat)\<bar> \<le> 1)
       \<and> (0 < sample_rate \<and> 0 < len audio \<longrightarrow> (\<exists>out. resample lib sample_rate audio = Inr out))"
proof (cases "sample_rate = 0")
  case True
  then show ?thesis by (simp add: resample_def py_truediv_def)
next
  case False
  define new_len where "new_len =
    py_int (float_mul (float_of_int (int (len audio))) (float64 (16000 / of_int sample_rate)))"
  define x :: rat where "x = of_nat (len audio) * 16000 / of_int sample_rate"
  note res = resample_cases [OF rate False, of lib audio, folded new_len_def]
  have "\<bar>of_int (round x) - x\<bar> \<le> 1 / 2" by (rule of_int_round_abs_le)
  then have near: "\<bar>new_len - round x\<bar> \<le> 1"
    unfolding new_len_def x_def
    using new_len_error(1) [OF False audio] by (intro py_int_near)
  have part: "\<bar>int (len out) - round x\<bar> \<le> 1"
    if "resample lib sample_rate audio = Inr out" for out
  proof -
    from that have "0 \<le> new_len" and "len out = nat new_len"
      unfolding res by (auto simp: len_def split: if_splits)
    then show ?thesis using near by simp
  qed
  have tot: "\<exists>out. resample lib sample_rate audio = Inr out"
    if "0 < sample_rate" "0 < len audio"
  proof -
    have "0 \<le> new_len"
      unfolding new_len_def py_int_def using new_len_error(2) [OF False audio that(1)] by simp
    then show ?thesis using that(2) by (simp add: res)
  qed
  from part tot show ?thesis unfolding x_def by blast
qed

text \<open>Four samples at 22050 Hz: \<open>4 * 16000 / 22050\<close> is about 2.9, truncated to 2 and rounded
  to 3.\<close>

lemma resample_example:
  "map_sum id len (resample example_lib 22050 \<lparr>dtype = Float32, data = [Finite 0, Finite 0, Finite 0, Finite 0]\<rparr>) = Inr 2"
  by code_simp

lemma round_example: "round (of_nat 4 * 16000 / of_int 22050 :: rat) = 3"
  by code_simp

theorem resample_length_witness:
  "\<exists>out. resample example_lib 22050 \<lparr>dtype = Float32, data = [Finite 0, Finite 0, Finite 0, Finite 0]\<rparr> = Inr out
     \<and> len out = 2
     \<and> round (of_nat 4 * 16000 / of_int 22050 :: rat) = 3"
proof -
  have "len \<lparr>dtype = Float32, data = [Finite 0, Finite 0, Finite 0, Finite 0]\<rparr> < 2 ^ 36" by (simp add: len_def)
  from resample_length [of 22050, OF _ this, of example_lib]
  obtain out where
    out: "resample example_lib 22050 \<lparr>dtype = Float32, data = [Finite 0, Finite 0, Finite 0, Finite 0]\<rparr> = Inr out"
    by (auto simp: len_def)
  with resample_example have "len out = 2" by simp
  with out round_example show ?thesis by blast
qed

section \<open>The shuffle\<close>

lemma take_indices_ok:
  "set indices \<subseteq> {0..<length xs} \<Longrightarrow> take_indices xs indices = Inr (map (\<lambda>i. xs ! i) indices)"
  by (auto simp: take_indices_def list_all_iff)

text \<open>
  C5. For two assembled sequences of equal length and any permutation of their indices, as
  \<^verbatim>\<open>np.random.permutation\<close> draws one, the shuffle succeeds and applies that one permutation
  to both: at every index \<open>k\<close> the shuffled embedding and label are the embedding and label
  at index \<open>indices ! k\<close> of the input, a pair present in the input, and the multiset of
  (embedding, label) pairs is preserved.
\<close>

theorem shuffle_pairing:
  assumes len: "length X = length y"
    and perm: "mset indices = mset [0..<length X]"
  shows "\<exists>X' y'. shuffle indices X y = Inr (X', y')
           \<and> length X' = length X \<and> length y' = length y
           \<and> (\<forall>k < length X. X' ! k = X ! (indices ! k) \<and> y' ! k = y ! (indices ! k)
                 \<and> (X' ! k, y' ! k) \<in> set (zip X y))
           \<and> mset (zip X' y') = mset (zip X y)"
proof -
  have set_idx: "set indices = {0..<length X}"
    using perm by (metis mset_eq_setD set_upt)
  have n: "length indices = length X"
    using perm by (metis mset_eq_length length_upt minus_nat.diff_0)
  let ?X' = "map (\<lambda>i. X ! i) indices" and ?y' = "map (\<lambda>i. y ! i) indices"
  have sh: "shuffle indices X y = Inr (?X', ?y')"
    using set_idx len by (simp add: shuffle_def take_indices_ok)
  have zip_eq: "zip ?X' ?y' = map (\<lambda>i. zip X y ! i) indices"
  proof (rule nth_equalityI)
    show "length (zip ?X' ?y') = length (map (\<lambda>i. zip X y ! i) indices)" by simp
  next
    fix k assume "k < length (zip ?X' ?y')"
    then have k: "k < length indices" by simp
    then have "indices ! k < length X" using set_idx nth_mem by fastforce
    with k len show "zip ?X' ?y' ! k = map (\<lambda>i. zip X y ! i) indices ! k" by simp
  qed
  have "mset (zip ?X' ?y') = image_mset (\<lambda>i. zip X y ! i) (mset indices)"
    by (simp add: zip_eq)
  also have "\<dots> = mset (map (\<lambda>i. zip X y ! i) [0..<length (zip X y)])"
    using perm len by simp
  also have "\<dots> = mset (zip X y)"
    by (simp only: map_nth)
  finally have ms: "mset (zip ?X' ?y') = mset (zip X y)" .
  have pt: "\<forall>k < length X. ?X' ! k = X ! (indices ! k) \<and> ?y' ! k = y ! (indices ! k)
                 \<and> (?X' ! k, ?y' ! k) \<in> set (zip X y)"
  proof (intro allI impI)
    fix k assume k: "k < length X"
    then have i: "indices ! k < length X" using set_idx n nth_mem by fastforce
    have "(X ! (indices ! k), y ! (indices ! k)) = zip X y ! (indices ! k)"
      using i len by simp
    also have "\<dots> \<in> set (zip X y)" using i len by (simp del: nth_zip)
    finally show "?X' ! k = X ! (indices ! k) \<and> ?y' ! k = y ! (indices ! k)
                 \<and> (?X' ! k, ?y' ! k) \<in> set (zip X y)"
      using k n by simp
  qed
  from sh pt ms n len show ?thesis by simp
qed

theorem shuffle_pairing_witness:
  "shuffle (permutation example_lib 3) [''a'', ''b'', ''c''] [IntVal 0, IntVal 1, IntVal 2]
     = Inr ([''c'', ''b'', ''a''], [IntVal 2, IntVal 1, IntVal 0])"
proof -
  have p: "permutation example_lib 3 = [2, 1, 0]"
    by (simp add: example_lib_def upt_rec)
  have "mset [2, 1, 0::nat] = mset [0..<length [''a'', ''b'', ''c'']]"
    by (simp add: upt_rec)
  from shuffle_pairing [OF _ this, of "[IntVal 0, IntVal 1, IntVal 2]"]
  obtain X' y' where sh: "shuffle [2, 1, 0] [''a'', ''b'', ''c''] [IntVal 0, IntVal 1, IntVal 2] = Inr (X', y')"
    and l: "length X' = 3" "length y' = 3"
    and nth: "\<forall>k<3. X' ! k = [''a'', ''b'', ''c''] ! ([2, 1, 0] ! k) \<and> y' ! k = [IntVal 0, IntVal 1, IntVal 2] ! ([2, 1, 0] ! k)"
    by auto
  have "X' = [''c'', ''b'', ''a'']"
    using l nth by (auto simp: list_eq_iff_nth_eq less_Suc_eq numeral_3_eq_3)
  moreover have "y' = [IntVal 2, IntVal 1, IntVal 0]"
    using l nth by (auto simp: list_eq_iff_nth_eq less_Suc_eq numeral_3_eq_3)
  ultimately show ?thesis using sh p by simp
qed

section \<open>The train/test split\<close>





text \<open>The bound on \<open>N\<close> is not idle: for \<open>2\<^sup>52\<close> examples, more than any memory holds, the
  binary64 product rounds up to the next integer.\<close>

lemma split_point_large:
  "py_int (float_mul lit_0_8 (float_of_int 4503599627370496)) = 3602879701896397
   \<and> (4 * 4503599627370496 div 5 :: int) = 3602879701896396"
  by code_simp

section \<open>The whole script\<close>

lemma main_no_embeddings:
  assumes "embeddings_list (process_dataset lib dataset init_acc) = []"
  shows "main lib dataset =
     (printed (process_dataset lib dataset init_acc) @
        [TotalLine (count (process_dataset lib dataset init_acc))
                   (errors (process_dataset lib dataset init_acc))], Inl IndexError)"
  using assms by (simp add: main_def Let_def np_array2_def shape_at_def)


lemma np_linspace_trainer:
  "np_linspace (lib\<lparr>train_and_export := other\<rparr>) = np_linspace lib"
  by (intro ext) (simp add: np_linspace_def)

lemma np_interp_trainer:
  "np_interp (lib\<lparr>train_and_export := other\<rparr>) = np_interp lib"
  by (intro ext) (simp add: np_interp_def)

lemma reduce_mean_axis0_trainer:
  "reduce_mean_axis0 (lib\<lparr>train_and_export := other\<rparr>) = reduce_mean_axis0 lib"
  by (intro ext) (simp add: reduce_mean_axis0_def)

lemma yamnet_model_trainer:
  "yamnet_model (lib\<lparr>train_and_export := other\<rparr>) = yamnet_model lib"
  by simp

lemma resample_trainer:
  "resample (lib\<lparr>train_and_export := other\<rparr>) = resample lib"
  unfolding resample_def np_linspace_trainer np_interp_trainer by (rule refl)

lemma extract_embeddings_trainer:
  "extract_embeddings a (lib\<lparr>train_and_export := other\<rparr>) = extract_embeddings a lib"
  unfolding extract_embeddings_def reduce_mean_axis0_trainer yamnet_model_trainer by (rule refl)

lemma process_audio_trainer:
  "process_audio (lib\<lparr>train_and_export := other\<rparr>) = process_audio lib"
  unfolding process_audio_def resample_trainer extract_embeddings_trainer by (rule refl)

lemma process_example_trainer:
  "process_example (lib\<lparr>train_and_export := other\<rparr>) = process_example lib"
  unfolding process_example_def process_audio_trainer by (rule refl)

text \<open>
  C10. If no track is processed successfully (every track is skipped for a bad label or
  dropped on an exception), \<^verbatim>\<open>main\<close> ends with an IndexError raised by \<^verbatim>\<open>X.shape[1]\<close> on the
  empty embedding array: it prints the lines of the loop and the totals, nothing more, and
  never reaches training or export, whatever the trainer is.
\<close>

theorem no_track_processed:
  assumes "\<forall>t \<in> set dataset. bad_label t \<or> failed lib t"
  shows "snd (main lib dataset) = Inl IndexError
     \<and> fst (main lib dataset) =
         printed (process_dataset lib dataset init_acc) @
           [TotalLine 0 (length (filter (failed lib) dataset))]
     \<and> main (lib\<lparr>train_and_export := other\<rparr>) dataset = main lib dataset"
proof -
  have nk: "filter (kept lib) dataset = []"
    using assms by (auto simp: filter_empty_conv kept_def bad_label_def failed_def)
  have e: "embeddings_list (process_dataset lib dataset init_acc) = []"
    by (simp add: embeddings_list_process_dataset nk init_acc_def)
  have c: "count (process_dataset lib dataset init_acc) = 0"
    by (simp add: count_process_dataset nk init_acc_def)
  have r: "errors (process_dataset lib dataset init_acc) = length (filter (failed lib) dataset)"
    by (simp add: errors_process_dataset init_acc_def)
  have same: "process_dataset (lib\<lparr>train_and_export := other\<rparr>) dataset init_acc
      = process_dataset lib dataset init_acc"
    by (simp add: process_dataset_def process_example_trainer)
  show ?thesis
    using main_no_embeddings [OF e] e c r
    by (simp add: same main_def Let_def np_array2_def shape_at_def)
qed

theorem no_track_processed_witness:
  "snd (main example_lib [track_rate_0, track_10]) = Inl IndexError
   \<and> fst (main example_lib [track_rate_0, track_10]) =
       [ErrorLine ZeroDivisionError, InvalidGenreLine (IntVal 10), TotalLine 0 1]"
proof -
  have "\<forall>t \<in> set [track_rate_0, track_10]. bad_label t \<or> failed example_lib t"
    using failed_track_rate_0 bad_label_track_10 by simp
  from no_track_processed [OF this, of undefined]
  have "snd (main example_lib [track_rate_0, track_10]) = Inl IndexError"
    and "fst (main example_lib [track_rate_0, track_10]) =
         printed (process_dataset example_lib [track_rate_0, track_10] init_acc) @
           [TotalLine 0 (length (filter (failed example_lib) [track_rate_0, track_10]))]"
    by simp_all
  moreover have "printed (process_dataset example_lib [track_rate_0, track_10] init_acc)
      = [ErrorLine ZeroDivisionError, InvalidGenreLine (IntVal 10)]"
    using failed_track_rate_0 bad_label_track_10
    by (simp add: process_dataset_def process_example_failed process_example_bad
          track_embedding_track_rate_0 init_acc_def)
       (simp add: track_10_def)
  moreover have "filter (failed example_lib) [track_rate_0, track_10] = [track_rate_0]"
    using failed_track_rate_0 bad_label_track_10 by (simp add: failed_def bad_label_def)
  ultimately show ?thesis by simp
qed

text \<open>
  C9. Running the script with \<^verbatim>\<open>--simple\<close> as its first argument runs the same \<^verbatim>\<open>main\<close> as
  running it without: the result is the same, and the output is the same preceded by one
  line.
\<close>

theorem simple_flag_same_pipeline:
  "script (prog # ''--simple'' # args) lib dataset
     = (SimpleLine # fst (script [prog] lib dataset), snd (script [prog] lib dataset))
   \<and> script [prog] lib dataset = main lib dataset"
  by (simp add: script_def split: prod.splits)
end
